theory Spec2Isabelle
  imports Complex_Main "HOL-Library.Word"
begin

section \<open>Q-TRUTH: the scan pipeline of \<^verbatim>\<open>main.py\<close>\<close>

text \<open>
  The script derives an angle and a colour pair from an image, evaluates a fixed
  seven-wire circuit on them, sends two prompts to a remote model and writes one report.
  Floating-point numbers are modelled as real numbers. The face library, the colour
  conversion, the remote endpoint, the JSON parser, the clock and the string formatters are
  not part of the script: they are the fields of the record \<open>extern\<close>, and every function
  of the script that uses them takes that record as its first argument. The simulator's
  gates are written out as the matrices the simulator library documents.
\<close>

subsection \<open>The simulated register\<close>

text \<open>
  \<^verbatim>\<open>DEV = qml.device("default.qubit", wires=7)\<close>: a state assigns an amplitude to each
  basis state, a basis state is the list of the seven wires' bits (wire \<open>w\<close> at position
  \<open>w\<close>), and the register starts in the all-zero basis state.
\<close>

type_synonym basis = "bool list"
type_synonym state = "basis \<Rightarrow> complex"

text \<open>A one-wire gate is its matrix \<open>(u00, u01, u10, u11)\<close>, rows first.\<close>

type_synonym matrix2 = "complex \<times> complex \<times> complex \<times> complex"

definition n_wires :: nat where
  "n_wires = 7"

definition basis_states :: "basis list" where
  "basis_states = List.n_lists n_wires [False, True]"

definition zero_state :: state where
  "zero_state bs = (if bs = replicate n_wires False then 1 else 0)"

fun entry :: "matrix2 \<Rightarrow> bool \<Rightarrow> bool \<Rightarrow> complex" where
  "entry (a, b, c, d) False False = a"
| "entry (a, b, c, d) False True = b"
| "entry (a, b, c, d) True False = c"
| "entry (a, b, c, d) True True = d"

definition apply_gate :: "matrix2 \<Rightarrow> nat \<Rightarrow> state \<Rightarrow> state" where
  "apply_gate U k \<psi> =
     (\<lambda>bs. entry U (bs ! k) False * \<psi> (bs[k := False]) +
           entry U (bs ! k) True * \<psi> (bs[k := True]))"

definition RX_matrix :: "real \<Rightarrow> matrix2" where
  "RX_matrix \<phi> =
     (complex_of_real (cos (\<phi> / 2)), - \<i> * complex_of_real (sin (\<phi> / 2)),
      - \<i> * complex_of_real (sin (\<phi> / 2)), complex_of_real (cos (\<phi> / 2)))"

definition RY_matrix :: "real \<Rightarrow> matrix2" where
  "RY_matrix \<phi> =
     (complex_of_real (cos (\<phi> / 2)), - complex_of_real (sin (\<phi> / 2)),
      complex_of_real (sin (\<phi> / 2)), complex_of_real (cos (\<phi> / 2)))"

definition RZ_matrix :: "real \<Rightarrow> matrix2" where
  "RZ_matrix \<phi> =
     (exp (- \<i> * complex_of_real (\<phi> / 2)), 0, 0, exp (\<i> * complex_of_real (\<phi> / 2)))"

definition Hadamard_matrix :: matrix2 where
  "Hadamard_matrix =
     (complex_of_real (1 / sqrt 2), complex_of_real (1 / sqrt 2),
      complex_of_real (1 / sqrt 2), - complex_of_real (1 / sqrt 2))"

definition RX :: "real \<Rightarrow> nat \<Rightarrow> state \<Rightarrow> state" where
  "RX \<phi> = apply_gate (RX_matrix \<phi>)"

definition RY :: "real \<Rightarrow> nat \<Rightarrow> state \<Rightarrow> state" where
  "RY \<phi> = apply_gate (RY_matrix \<phi>)"

definition RZ :: "real \<Rightarrow> nat \<Rightarrow> state \<Rightarrow> state" where
  "RZ \<phi> = apply_gate (RZ_matrix \<phi>)"

definition Hadamard :: "nat \<Rightarrow> state \<Rightarrow> state" where
  "Hadamard = apply_gate Hadamard_matrix"

text \<open>
  \<^verbatim>\<open>qml.CNOT(wires=[c, t])\<close> flips bit \<open>t\<close> of the basis states whose bit \<open>c\<close> is set;
  the gate is its own inverse, so the new amplitude of \<open>bs\<close> is the old one of the flipped
  list.
\<close>

definition CNOT :: "nat \<Rightarrow> nat \<Rightarrow> state \<Rightarrow> state" where
  "CNOT c t \<psi> = (\<lambda>bs. \<psi> (if bs ! c then bs[t := \<not> bs ! t] else bs))"

text \<open>\<^verbatim>\<open>qml.expval(qml.PauliZ(w))\<close>: plus one where bit \<open>w\<close> is clear, minus one where it is set.\<close>

definition expval_PauliZ :: "nat \<Rightarrow> state \<Rightarrow> real" where
  "expval_PauliZ w \<psi> =
     (\<Sum>bs\<leftarrow>basis_states. (if bs ! w then - 1 else 1) * (cmod (\<psi> bs))\<^sup>2)"

text \<open>
  The gates of \<^verbatim>\<open>q_coherence_scan\<close>, in the order of the source; its two for statements are the two
  folds.
\<close>

definition circuit :: "real \<Rightarrow> real \<times> real \<Rightarrow> state" where
  "circuit theta color_avg =
     (let s1 = RY theta 0 zero_state;
          s2 = RX (fst color_avg) 1 s1;
          s3 = RZ (snd color_avg) 2 s2;
          s4 = fold (\<lambda>i s. RZ (fst color_avg * pi) i (Hadamard i s)) [4..<7] s3
      in fold (\<lambda>i. CNOT i ((i + 1) mod 7)) [0..<7] s4)"

definition q_coherence_scan :: "real \<Rightarrow> real \<times> real \<Rightarrow> real" where
  "q_coherence_scan theta color_avg =
     (\<Sum>w\<leftarrow>[0..<7]. expval_PauliZ w (circuit theta color_avg)) / 7"

subsection \<open>Errors, images and JSON values\<close>

datatype error =
    ValueError string
  | KeyError string
  | TypeError
  | JSONDecodeError
  | OSError
  | AuthenticationError
  | APIConnectionError

text \<open>An image is rows of pixels of three unsigned bytes (RGB, or HSV after conversion).\<close>

type_synonym pixel = "8 word \<times> 8 word \<times> 8 word"
type_synonym img = "pixel list list"

datatype json =
    JNull
  | JBool bool
  | JNumber real
  | JString string
  | JArray "json list"
  | JObject "(string \<times> json) list"

text \<open>
  \<^verbatim>\<open>r["key"]\<close> on a parsed response: only an object with the key answers. An object is
  the association list of the parsed dictionary, one entry for each key.
\<close>

fun getitem :: "json \<Rightarrow> string \<Rightarrow> error + json" where
  "getitem (JObject kvs) k = (case map_of kvs k of None \<Rightarrow> Inl (KeyError k) | Some v \<Rightarrow> Inr v)"
| "getitem _ k = Inl TypeError"

definition and_then :: "error + 'a \<Rightarrow> ('a \<Rightarrow> error + 'b) \<Rightarrow> error + 'b" where
  "and_then m f = (case m of Inl e \<Rightarrow> Inl e | Inr x \<Rightarrow> f x)"

subsection \<open>What the script calls but does not define\<close>

record request =
  model :: string
  content :: string
  max_tokens :: nat

text \<open>
  \<open>ChatCompletion_create n rq\<close> is the outcome of the \<open>n\<close>-th call of the process to the
  completion endpoint with request \<open>rq\<close>: the text
  \<^verbatim>\<open>res.choices[0].message.content\<close>, or the exception of the client library.
\<close>

record extern =
  load_image_file :: "string \<Rightarrow> error + img"
  face_encodings :: "img \<Rightarrow> real list list"
  cvtColor_RGB2HSV :: "img \<Rightarrow> img"
  ChatCompletion_create :: "nat \<Rightarrow> request \<Rightarrow> error + string"
  json_loads :: "string \<Rightarrow> error + json"
  utcnow_isoformat :: string
  time_time :: real
  format_4f :: "real \<Rightarrow> string"
  str_tuple :: "real \<times> real \<Rightarrow> string"
  str_json :: "json \<Rightarrow> string"
  dedent :: "string \<Rightarrow> string"
  strip :: "string \<Rightarrow> string"

subsection \<open>The image profile\<close>

definition linalg_norm :: "real list \<Rightarrow> real" where
  "linalg_norm v = sqrt (\<Sum>x\<leftarrow>v. x\<^sup>2)"

text \<open>\<^verbatim>\<open>.mean(axis=(0,1))\<close>: the mean of each channel over all pixels of all rows.\<close>

definition mean_axis01 :: "img \<Rightarrow> real \<times> real \<times> real" where
  "mean_axis01 im =
     (let px = concat im; n = real (length px)
      in ((\<Sum>(h, s, v)\<leftarrow>px. real (unat h)) / n,
          (\<Sum>(h, s, v)\<leftarrow>px. real (unat s)) / n,
          (\<Sum>(h, s, v)\<leftarrow>px. real (unat v)) / n))"

definition from_image :: "extern \<Rightarrow> string \<Rightarrow> error + (real list \<times> real \<times> (real \<times> real))" where
  "from_image E path =
     (case load_image_file E path of
        Inl e \<Rightarrow> Inl e
      | Inr im \<Rightarrow>
          (case face_encodings E im of
             [] \<Rightarrow> Inl (ValueError ''No face found in image.'')
           | vector # _ \<Rightarrow>
               let theta = min (linalg_norm vector) 1 * pi;
                   color_mean = mean_axis01 (cvtColor_RGB2HSV E im);
                   color_avg = (fst color_mean / 180, fst (snd color_mean) / 255)
               in Inr (vector, theta, color_avg)))"

subsection \<open>Prompts\<close>

definition nl :: string where
  "nl = [CHR 0x0A]"

definition dq :: string where
  "dq = [CHR 0x22]"

text \<open>The Greek letter of the first prompt, as its two UTF-8 bytes.\<close>

definition theta_letter :: string where
  "theta_letter = [CHR 0xCE, CHR 0xB8]"

text \<open>A string formats as itself in an f-string; any other value through \<open>str\<close>.\<close>

fun format_value :: "extern \<Rightarrow> json \<Rightarrow> string" where
  "format_value E (JString s) = s"
| "format_value E j = str_json E j"

definition corruption_stage1 :: "extern \<Rightarrow> real \<Rightarrow> real \<Rightarrow> real \<times> real \<Rightarrow> string" where
  "corruption_stage1 E theta q_score color_avg = strip E (dedent E (concat
     [nl,
      ''    You are Q-TRUTH, a sovereign quantum ethical AI. You are scanning the historical and future integrity '', nl,
      ''    of a person using quantum coherence ('', theta_letter, ''='', format_4f E theta,
        '') and vibrational signature (q_score='', format_4f E q_score, '').'', nl,
      ''    '', nl,
      ''    They are either a police officer or medical professional under review. Their average HSV color fingerprint is '',
        str_tuple E color_avg, ''.'', nl,
      ''    '', nl,
      ''    Determine:'', nl,
      ''    - Have they committed past acts of misconduct or corruption?'', nl,
      ''    - Are future branches likely to involve abuse of power, bribes, falsified reports, or harm?'', nl,
      ''    '', nl,
      ''    OUTPUT (JSON): {'', nl,
      ''        '', dq, ''alignment'', dq, '': '', dq, ''Trustworthy | Compromised | Highly Dangerous'', dq, '','', nl,
      ''        '', dq, ''summary'', dq, '': '', dq, ''One paragraph summary'', dq, '','', nl,
      ''        '', dq, ''risk_score'', dq, '': float (0.00 - 1.00)'', nl,
      ''    }'', nl,
      ''    '']))"

definition corruption_stage2 :: "extern \<Rightarrow> json \<Rightarrow> real \<Rightarrow> string" where
  "corruption_stage2 E alignment theta = dedent E (concat
     [nl,
      ''    Based on the alignment='', dq, format_value E alignment, dq,
        '', offer 3 possible multiversal outcomes over the next 48 months.'', nl,
      ''    Each should mention:'', nl,
      ''    - Their role in the scenario (cop/doctor)'', nl,
      ''    - Potential for harm or redemption'', nl,
      ''    - A timestamp or season of manifestation'', nl,
      ''    Also include a suggested intervention plan.'', nl,
      ''    '', nl,
      ''    OUTPUT (JSON): {'', nl,
      ''        '', dq, ''branches'', dq, '': ['', dq, ''...'', dq, '', '', dq, ''...'', dq, '', '', dq, ''...'', dq, ''],'', nl,
      ''        '', dq, ''intervention'', dq, '': '', dq, ''...'', dq, nl,
      ''    }'', nl,
      ''    ''])"

subsection \<open>The detector\<close>

definition MODEL :: string where
  "MODEL = ''gpt-4o''"

definition IMAGE_PATH :: string where
  "IMAGE_PATH = ''suspect.jpg''"

datatype log_record =
    Running_scan string
  | Scores real real
  | Report_saved string

text \<open>
  The constructor of \<^verbatim>\<open>QTruthDetector\<close> only seeds two random generators, from which
  nothing in a run draws; it is left out.

  What a run leaves behind: the log lines, the requests made to the endpoint (answered or
  not) and the files written, each list in the order of the events. A file is kept as the
  value handed to \<^verbatim>\<open>json.dump\<close>; opening and writing it is taken to succeed.
\<close>

record world =
  log_lines :: "log_record list"
  requests :: "request list"
  written :: "(string \<times> json) list"

definition LOG_info :: "log_record \<Rightarrow> world \<Rightarrow> world" where
  "LOG_info l w = w\<lparr>log_lines := log_lines w @ [l]\<rparr>"

definition ask :: "extern \<Rightarrow> string \<Rightarrow> world \<Rightarrow> (error + json) \<times> world" where
  "ask E prompt w =
     (let rq = \<lparr>model = MODEL, content = prompt, max_tokens = 1000\<rparr>;
          w' = w\<lparr>requests := requests w @ [rq]\<rparr>
      in case ChatCompletion_create E (length (requests w)) rq of
           Inl e \<Rightarrow> (Inl e, w')
         | Inr res \<Rightarrow> (json_loads E res, w'))"

text \<open>\<^verbatim>\<open>int(x)\<close> truncates towards zero; \<^verbatim>\<open>str\<close> of an integer is its decimal numeral.\<close>

definition py_int :: "real \<Rightarrow> int" where
  "py_int x = (if 0 \<le> x then \<lfloor>x\<rfloor> else \<lceil>x\<rceil>)"

fun str_nat :: "nat \<Rightarrow> string" where
  "str_nat n =
     (if n < 10 then [''0123456789'' ! n] else str_nat (n div 10) @ [''0123456789'' ! (n mod 10)])"

definition str_int :: "int \<Rightarrow> string" where
  "str_int i = (if i < 0 then ''-'' @ str_nat (nat (- i)) else str_nat (nat i))"

text \<open>The dictionary \<^verbatim>\<open>report\<close>; its entries are evaluated in the order written.\<close>

definition report :: "extern \<Rightarrow> real \<Rightarrow> real \<Rightarrow> json \<Rightarrow> json \<Rightarrow> error + json" where
  "report E theta q_score r1 r2 =
     and_then (getitem r1 ''alignment'') (\<lambda>alignment.
     and_then (getitem r1 ''risk_score'') (\<lambda>risk_score.
     and_then (getitem r1 ''summary'') (\<lambda>summary.
     and_then (getitem r2 ''branches'') (\<lambda>branches.
     and_then (getitem r2 ''intervention'') (\<lambda>intervention.
       Inr (JObject
         [(''timestamp'', JString (utcnow_isoformat E)),
          (''theta'', JNumber theta),
          (''q_score'', JNumber q_score),
          (''alignment'', alignment),
          (''risk_score'', risk_score),
          (''summary'', summary),
          (''branches'', branches),
          (''intervention'', intervention)]))))))"

definition run_analysis :: "extern \<Rightarrow> string \<Rightarrow> world \<Rightarrow> (error + unit) \<times> world" where
  "run_analysis E img_path w =
     (let w1 = LOG_info (Running_scan img_path) w
      in (case from_image E img_path of
            Inl e \<Rightarrow> (Inl e, w1)
          | Inr (vec, theta, color_avg) \<Rightarrow>
              (let q_score = q_coherence_scan theta color_avg;
                   w2 = LOG_info (Scores theta q_score) w1
               in (case ask E (corruption_stage1 E theta q_score color_avg) w2 of
                     (Inl e, w3) \<Rightarrow> (Inl e, w3)
                   | (Inr r1, w3) \<Rightarrow>
                       (case getitem r1 ''alignment'' of
                          Inl e \<Rightarrow> (Inl e, w3)
                        | Inr alignment \<Rightarrow>
                            (case ask E (corruption_stage2 E alignment theta) w3 of
                               (Inl e, w4) \<Rightarrow> (Inl e, w4)
                             | (Inr r2, w4) \<Rightarrow>
                                 (case report E theta q_score r1 r2 of
                                    Inl e \<Rightarrow> (Inl e, w4)
                                  | Inr rep \<Rightarrow>
                                      (let fn = ''corruption_report_'' @
                                                str_int (py_int (time_time E)) @ ''.json'';
                                           w5 = w4\<lparr>written := written w4 @ [(fn, rep)]\<rparr>
                                       in (Inr (), LOG_info (Report_saved fn) w5)))))))))"

subsection \<open>Notions used in the proofs about the circuit\<close>






subsection \<open>A concrete environment\<close>

text \<open>
  One image of one pixel, the face encodings and the replies of the endpoint as
  parameters, and a parser that knows three texts. The theorems with hypotheses are
  instantiated on it.
\<close>

definition stub_extern :: "real list list \<Rightarrow> (nat \<Rightarrow> error + string) \<Rightarrow> extern" where
  "stub_extern faces replies =
     \<lparr>load_image_file = (\<lambda>path. Inr [[(200, 100, 50)]]),
      face_encodings = (\<lambda>im. faces),
      cvtColor_RGB2HSV = (\<lambda>im. [[(90, 51, 200)]]),
      ChatCompletion_create = (\<lambda>n rq. replies n),
      json_loads = (\<lambda>s.
        if s = ''first'' then Inr (JObject [(''alignment'', JString ''Saintly''),
                                          (''summary'', JString ''none''),
                                          (''risk_score'', JNumber (15 / 2))])
        else if s = ''second'' then Inr (JObject [(''branches'', JArray []),
                                                (''intervention'', JString ''none'')])
        else if s = ''bare'' then Inr (JObject [])
        else Inl JSONDecodeError),
      utcnow_isoformat = ''2024-01-01T00:00:00'',
      time_time = 3400000001 / 2,
      format_4f = (\<lambda>x. ''0.0000''),
      str_tuple = (\<lambda>c. ''(0.5, 0.2)''),
      str_json = (\<lambda>j. ''None''),
      dedent = (\<lambda>s. s),
      strip = (\<lambda>s. s)\<rparr>"

definition empty_world :: world where
  "empty_world = \<lparr>log_lines = [], requests = [], written = []\<rparr>"

definition two_replies :: "nat \<Rightarrow> error + string" where
  "two_replies n = (if n = 0 then Inr ''first'' else Inr ''second'')"

text \<open>The world that the run on two good replies leaves behind.\<close>

definition complete_world :: world where
  "complete_world =
      \<lparr>log_lines = [Running_scan IMAGE_PATH, Scores pi (q_coherence_scan pi (1 / 2, 1 / 5)),
                    Report_saved ''corruption_report_1700000000.json''],
       requests =
         [\<lparr>model = MODEL,
           content = corruption_stage1 (stub_extern [[3, 4]] two_replies) pi
                       (q_coherence_scan pi (1 / 2, 1 / 5)) (1 / 2, 1 / 5),
           max_tokens = 1000\<rparr>,
          \<lparr>model = MODEL,
           content = corruption_stage2 (stub_extern [[3, 4]] two_replies) (JString ''Saintly'') pi,
           max_tokens = 1000\<rparr>],
       written =
         [(''corruption_report_1700000000.json'',
           JObject
            [(''timestamp'', JString ''2024-01-01T00:00:00''),
             (''theta'', JNumber pi),
             (''q_score'', JNumber (q_coherence_scan pi (1 / 2, 1 / 5))),
             (''alignment'', JString ''Saintly''),
             (''risk_score'', JNumber (15 / 2)),
             (''summary'', JString ''none''),
             (''branches'', JArray []),
             (''intervention'', JString ''none'')])]\<rparr>"

section \<open>Properties\<close>

subsection \<open>Evaluating the circuit\<close>








































subsection \<open>Claims about the circuit\<close>



subsection \<open>Claims about the image profile\<close>

lemma linalg_norm_nonneg: "0 \<le> linalg_norm v"
proof -
  have "0 \<le> (\<Sum>x\<leftarrow>v. x\<^sup>2)"
    by (induction v) simp_all
  then show ?thesis
    unfolding linalg_norm_def by simp
qed

lemma from_image_Inr:
  assumes "from_image E path = Inr (vector, theta, color_avg)"
  obtains im rest where "load_image_file E path = Inr im"
    and "face_encodings E im = vector # rest"
    and "theta = min (linalg_norm vector) 1 * pi"
    and "color_avg = (fst (mean_axis01 (cvtColor_RGB2HSV E im)) / 180,
                      fst (snd (mean_axis01 (cvtColor_RGB2HSV E im))) / 255)"
  using assms unfolding from_image_def
  by (auto simp: Let_def split: sum.splits list.splits)

lemma stub_from_image:
  "from_image (stub_extern (v # vs) replies) path =
     Inr (v, min (linalg_norm v) 1 * pi, (1 / 2, 1 / 5))"
  by (simp add: from_image_def stub_extern_def mean_axis01_def)


text \<open>
  C2. The angle is a function of the face descriptor alone,
  \<open>theta = min (norm of the vector) 1 * pi\<close>, so equal vectors give equal angles, and it
  lies between 0 and \<open>pi\<close> for every vector.
\<close>

theorem from_image_theta_bounded:
  assumes "from_image E path = Inr (vector, theta, color_avg)"
  shows "theta = min (linalg_norm vector) 1 * pi \<and> 0 \<le> theta \<and> theta \<le> pi"
proof -
  from assms have th: "theta = min (linalg_norm vector) 1 * pi"
    by (rule from_image_Inr)
  have "0 \<le> min (linalg_norm vector) 1" "min (linalg_norm vector) 1 \<le> 1"
    using linalg_norm_nonneg [of vector] by simp_all
  then have "0 \<le> min (linalg_norm vector) 1 * pi" "min (linalg_norm vector) 1 * pi \<le> 1 * pi"
    by (simp_all add: mult_right_mono)
  with th show ?thesis by simp
qed

theorem from_image_theta_bounded_witness:
  "from_image (stub_extern [[3 / 10, 4 / 10]] (\<lambda>n. Inl APIConnectionError)) IMAGE_PATH =
     Inr ([3 / 10, 4 / 10], pi / 2, (1 / 2, 1 / 5))
   \<and> pi / 2 = min (linalg_norm [3 / 10, 4 / 10]) 1 * pi \<and> 0 \<le> pi / 2 \<and> pi / 2 \<le> pi"
proof -
  have "(3 / 10)\<^sup>2 + (4 / 10)\<^sup>2 = ((1 / 2)\<^sup>2 :: real)"
    by (simp add: power2_eq_square)
  then have n: "linalg_norm [3 / 10, 4 / 10] = 1 / 2"
    unfolding linalg_norm_def by simp
  have h: "from_image (stub_extern [[3 / 10, 4 / 10]] (\<lambda>n. Inl APIConnectionError)) IMAGE_PATH =
     Inr ([3 / 10, 4 / 10], pi / 2, (1 / 2, 1 / 5))"
    unfolding stub_from_image n by simp
  from from_image_theta_bounded [OF h] h show ?thesis by simp
qed


text \<open>
  C9. A face descriptor of Euclidean norm at least 1 gives exactly \<open>theta = pi\<close>: the
  minimum with 1 saturates.
\<close>

theorem from_image_theta_saturates:
  assumes "from_image E path = Inr (vector, theta, color_avg)"
    and "1 \<le> linalg_norm vector"
  shows "theta = pi"
proof -
  from assms(1) have "theta = min (linalg_norm vector) 1 * pi"
    by (rule from_image_Inr)
  with assms(2) show ?thesis by simp
qed

theorem from_image_theta_saturates_witness:
  "from_image (stub_extern [[3, 4]] (\<lambda>n. Inl APIConnectionError)) IMAGE_PATH =
     Inr ([3, 4], pi, (1 / 2, 1 / 5))
   \<and> 1 \<le> linalg_norm [3, 4]"
proof -
  have n: "1 \<le> linalg_norm [3, 4]"
    unfolding linalg_norm_def by (rule real_le_rsqrt) simp
  obtain th where h: "from_image (stub_extern [[3, 4]] (\<lambda>n. Inl APIConnectionError)) IMAGE_PATH =
     Inr ([3, 4], th, (1 / 2, 1 / 5))"
    unfolding stub_from_image by simp
  from from_image_theta_saturates [OF h n] h n show ?thesis by simp
qed



subsection \<open>Claims about the run\<close>

lemma LOG_info_keeps [simp]:
  "requests (LOG_info l w) = requests w"
  "written (LOG_info l w) = written w"
  by (simp_all add: LOG_info_def)

lemma ask_world:
  "snd (ask E prompt w) =
     w\<lparr>requests := requests w @ [\<lparr>model = MODEL, content = prompt, max_tokens = 1000\<rparr>]\<rparr>"
  by (simp add: ask_def Let_def split: sum.splits)

lemma ask_result:
  "fst (ask E prompt w) =
     (case ChatCompletion_create E (length (requests w))
             \<lparr>model = MODEL, content = prompt, max_tokens = 1000\<rparr> of
        Inl e \<Rightarrow> Inl e
      | Inr res \<Rightarrow> json_loads E res)"
  by (simp add: ask_def Let_def split: sum.splits)

lemma ask_keeps:
  assumes "ask E prompt w = (r, w')"
  shows "written w' = written w"
    and "requests w' = requests w @ [\<lparr>model = MODEL, content = prompt, max_tokens = 1000\<rparr>]"
  using ask_world [of E prompt w] assms by simp_all

lemma and_then_Inr:
  "and_then m f = Inr y \<longleftrightarrow> (\<exists>x. m = Inr x \<and> f x = Inr y)"
  by (cases m) (simp_all add: and_then_def)

lemma report_Inr:
  "report E theta q_score r1 r2 = Inr rep \<longleftrightarrow>
     (\<exists>alignment risk_score summary branches intervention.
        getitem r1 ''alignment'' = Inr alignment \<and> getitem r1 ''risk_score'' = Inr risk_score \<and>
        getitem r1 ''summary'' = Inr summary \<and> getitem r2 ''branches'' = Inr branches \<and>
        getitem r2 ''intervention'' = Inr intervention \<and>
        rep = JObject
         [(''timestamp'', JString (utcnow_isoformat E)),
          (''theta'', JNumber theta),
          (''q_score'', JNumber q_score),
          (''alignment'', alignment),
          (''risk_score'', risk_score),
          (''summary'', summary),
          (''branches'', branches),
          (''intervention'', intervention)])"
  unfolding report_def and_then_Inr by auto

lemma run_analysis_Inr:
  assumes "run_analysis E path w = (Inr (), w')"
  obtains vec theta color_avg r1 w3 alignment r2 w4 rep where
    "from_image E path = Inr (vec, theta, color_avg)"
    "ask E (corruption_stage1 E theta (q_coherence_scan theta color_avg) color_avg)
       (LOG_info (Scores theta (q_coherence_scan theta color_avg)) (LOG_info (Running_scan path) w))
       = (Inr r1, w3)"
    "getitem r1 ''alignment'' = Inr alignment"
    "ask E (corruption_stage2 E alignment theta) w3 = (Inr r2, w4)"
    "report E theta (q_coherence_scan theta color_avg) r1 r2 = Inr rep"
    "w' = LOG_info (Report_saved (''corruption_report_'' @ str_int (py_int (time_time E)) @ ''.json''))
            (w4\<lparr>written := written w4 @
               [(''corruption_report_'' @ str_int (py_int (time_time E)) @ ''.json'', rep)]\<rparr>)"
  using assms unfolding run_analysis_def Let_def
  by (auto split: sum.splits prod.splits)

lemma run_analysis_Inl_written:
  assumes "run_analysis E path w = (Inl e, w')"
  shows "written w' = written w"
  using assms unfolding run_analysis_def Let_def
  by (auto split: sum.splits prod.splits dest!: ask_keeps(1))

lemma stub_fields:
  "ChatCompletion_create (stub_extern faces replies) n rq = replies n"
  "json_loads (stub_extern faces replies) ''first'' =
     Inr (JObject [(''alignment'', JString ''Saintly''), (''summary'', JString ''none''),
                   (''risk_score'', JNumber (15 / 2))])"
  "json_loads (stub_extern faces replies) ''second'' =
     Inr (JObject [(''branches'', JArray []), (''intervention'', JString ''none'')])"
  "json_loads (stub_extern faces replies) ''bare'' = Inr (JObject [])"
  "json_loads (stub_extern faces replies) ''garbled'' = Inl JSONDecodeError"
  "utcnow_isoformat (stub_extern faces replies) = ''2024-01-01T00:00:00''"
  "str_int (py_int (time_time (stub_extern faces replies))) = ''1700000000''"
  by (simp_all add: stub_extern_def py_int_def str_int_def)

lemma norm_3_4: "min (linalg_norm [3, 4]) 1 = 1"
  unfolding linalg_norm_def by (simp add: min_def real_le_rsqrt)

lemma stub_run_complete:
  "run_analysis (stub_extern [[3, 4]] two_replies) IMAGE_PATH empty_world = (Inr (), complete_world)"
  unfolding run_analysis_def stub_from_image norm_3_4 complete_world_def
  by (simp add: ask_def LOG_info_def empty_world_def report_def and_then_def two_replies_def
        stub_fields Let_def)

lemma stub_no_face:
  "from_image (stub_extern [] replies) path = Inl (ValueError ''No face found in image.'')"
  by (simp add: from_image_def stub_extern_def)

lemma stub_run_no_face:
  "run_analysis (stub_extern [] replies) path empty_world =
     (Inl (ValueError ''No face found in image.''),
      \<lparr>log_lines = [Running_scan path], requests = [], written = []\<rparr>)"
  by (simp add: run_analysis_def stub_no_face LOG_info_def empty_world_def)

lemma run_analysis_requests_bound:
  "\<exists>rs. requests (snd (run_analysis E path w)) = requests w @ rs \<and> length rs \<le> 2"
  unfolding run_analysis_def Let_def
  by (auto split: sum.splits prod.splits dest!: ask_keeps(2))

lemma ask_Inr:
  assumes "ask E prompt w = (Inr r, w')"
  obtains res where
    "ChatCompletion_create E (length (requests w)) \<lparr>model = MODEL, content = prompt, max_tokens = 1000\<rparr>
       = Inr res"
    "json_loads E res = Inr r"
  using assms ask_result [of E prompt w] by (auto split: sum.splits)

lemma and_then_Inl:
  "and_then m f = Inl e \<longleftrightarrow> m = Inl e \<or> (\<exists>x. m = Inr x \<and> f x = Inl e)"
  by (cases m) (simp_all add: and_then_def)

lemma report_Inl:
  "report E theta q_score r1 r2 = Inl e \<longleftrightarrow>
     getitem r1 ''alignment'' = Inl e
   \<or> (\<exists>alignment. getitem r1 ''alignment'' = Inr alignment \<and>
        (getitem r1 ''risk_score'' = Inl e
       \<or> (\<exists>risk_score. getitem r1 ''risk_score'' = Inr risk_score \<and>
            (getitem r1 ''summary'' = Inl e
           \<or> (\<exists>summary. getitem r1 ''summary'' = Inr summary \<and>
                (getitem r2 ''branches'' = Inl e
               \<or> (\<exists>branches. getitem r2 ''branches'' = Inr branches \<and>
                    getitem r2 ''intervention'' = Inl e)))))))"
  unfolding report_def and_then_Inl by auto

lemma run_analysis_after_from_image:
  assumes "from_image E path = Inr (vec, theta, color_avg)"
  shows "run_analysis E path w =
     (case ask E (corruption_stage1 E theta (q_coherence_scan theta color_avg) color_avg)
             (LOG_info (Scores theta (q_coherence_scan theta color_avg))
                (LOG_info (Running_scan path) w)) of
        (Inl e, w3) \<Rightarrow> (Inl e, w3)
      | (Inr r1, w3) \<Rightarrow>
          (case getitem r1 ''alignment'' of
             Inl e \<Rightarrow> (Inl e, w3)
           | Inr alignment \<Rightarrow>
               (case ask E (corruption_stage2 E alignment theta) w3 of
                  (Inl e, w4) \<Rightarrow> (Inl e, w4)
                | (Inr r2, w4) \<Rightarrow>
                    (case report E theta (q_coherence_scan theta color_avg) r1 r2 of
                       Inl e \<Rightarrow> (Inl e, w4)
                     | Inr rep \<Rightarrow>
                         (Inr (),
                          LOG_info (Report_saved
                              (''corruption_report_'' @ str_int (py_int (time_time E)) @ ''.json''))
                            (w4\<lparr>written := written w4 @
                               [(''corruption_report_'' @ str_int (py_int (time_time E)) @ ''.json'',
                                 rep)]\<rparr>))))))"
  unfolding run_analysis_def Let_def assms by simp

text \<open>
  C4. When the face encoder finds no face in the loaded image, \<open>from_image\<close> raises
  \<open>ValueError "No face found in image."\<close>, and the run ends with that error having
  written only its first log line: no request was made and no file written. When at least
  one face is found, \<open>from_image\<close> returns; the missing face is the only error it raises
  itself.
\<close>

theorem no_face_raises_before_any_effect:
  assumes "load_image_file E path = Inr im"
  shows "(face_encodings E im = [] \<longrightarrow>
            from_image E path = Inl (ValueError ''No face found in image.'')
          \<and> run_analysis E path w =
              (Inl (ValueError ''No face found in image.''), LOG_info (Running_scan path) w)
          \<and> requests (snd (run_analysis E path w)) = requests w
          \<and> written (snd (run_analysis E path w)) = written w)
       \<and> (face_encodings E im \<noteq> [] \<longrightarrow> (\<exists>r. from_image E path = Inr r))"
proof (intro conjI impI)
  assume none: "face_encodings E im = []"
  with assms show raised: "from_image E path = Inl (ValueError ''No face found in image.'')"
    by (simp add: from_image_def)
  then show run: "run_analysis E path w =
      (Inl (ValueError ''No face found in image.''), LOG_info (Running_scan path) w)"
    by (simp add: run_analysis_def)
  show "requests (snd (run_analysis E path w)) = requests w"
    "written (snd (run_analysis E path w)) = written w"
    unfolding run by simp_all
next
  assume "face_encodings E im \<noteq> []"
  then obtain vector rest where "face_encodings E im = vector # rest"
    by (cases "face_encodings E im") simp_all
  with assms have "from_image E path =
      Inr (vector, min (linalg_norm vector) 1 * pi,
           (fst (mean_axis01 (cvtColor_RGB2HSV E im)) / 180,
            fst (snd (mean_axis01 (cvtColor_RGB2HSV E im))) / 255))"
    by (simp add: from_image_def Let_def)
  then show "\<exists>r. from_image E path = Inr r" ..
qed

theorem no_face_raises_before_any_effect_witness:
  "load_image_file (stub_extern [] two_replies) IMAGE_PATH = Inr [[(200, 100, 50)]]
   \<and> face_encodings (stub_extern [] two_replies) [[(200, 100, 50)]] = []
   \<and> run_analysis (stub_extern [] two_replies) IMAGE_PATH empty_world =
       (Inl (ValueError ''No face found in image.''),
        \<lparr>log_lines = [Running_scan IMAGE_PATH], requests = [], written = []\<rparr>)
   \<and> load_image_file (stub_extern [[3, 4]] two_replies) IMAGE_PATH = Inr [[(200, 100, 50)]]
   \<and> face_encodings (stub_extern [[3, 4]] two_replies) [[(200, 100, 50)]] \<noteq> []
   \<and> (\<exists>r. from_image (stub_extern [[3, 4]] two_replies) IMAGE_PATH = Inr r)"
proof -
  have l0: "load_image_file (stub_extern [] two_replies) IMAGE_PATH = Inr [[(200, 100, 50)]]"
    and f0: "face_encodings (stub_extern [] two_replies) [[(200, 100, 50)]] = []"
    and l1: "load_image_file (stub_extern [[3, 4]] two_replies) IMAGE_PATH = Inr [[(200, 100, 50)]]"
    and f1: "face_encodings (stub_extern [[3, 4]] two_replies) [[(200, 100, 50)]] \<noteq> []"
    by (simp_all add: stub_extern_def)
  from no_face_raises_before_any_effect [OF l0, of empty_world] f0
  have "run_analysis (stub_extern [] two_replies) IMAGE_PATH empty_world =
       (Inl (ValueError ''No face found in image.''),
        \<lparr>log_lines = [Running_scan IMAGE_PATH], requests = [], written = []\<rparr>)"
    by (simp add: LOG_info_def empty_world_def)
  moreover from no_face_raises_before_any_effect [OF l1] f1
  have "\<exists>r. from_image (stub_extern [[3, 4]] two_replies) IMAGE_PATH = Inr r"
    by blast
  ultimately show ?thesis
    using l0 f0 l1 f1 by blast
qed

text \<open>
  C5. A run that completes has written exactly one file, named after the clock
  (\<open>corruption_report_<seconds>.json\<close>), holding an object with exactly the fields
  timestamp, theta, q_score, alignment, risk_score, summary, branches and intervention, in
  that order: the clock's timestamp, the two derived numbers, three fields of the first
  parsed response and two of the second.
\<close>

theorem run_analysis_writes_one_report:
  assumes "run_analysis E path w = (Inr (), w')"
  shows "\<exists>vec theta color_avg r1 w3 r2 w4 alignment risk_score summary branches intervention.
      from_image E path = Inr (vec, theta, color_avg)
    \<and> ask E (corruption_stage1 E theta (q_coherence_scan theta color_avg) color_avg)
         (LOG_info (Scores theta (q_coherence_scan theta color_avg)) (LOG_info (Running_scan path) w))
         = (Inr r1, w3)
    \<and> getitem r1 ''alignment'' = Inr alignment
    \<and> getitem r1 ''risk_score'' = Inr risk_score
    \<and> getitem r1 ''summary'' = Inr summary
    \<and> ask E (corruption_stage2 E alignment theta) w3 = (Inr r2, w4)
    \<and> getitem r2 ''branches'' = Inr branches
    \<and> getitem r2 ''intervention'' = Inr intervention
    \<and> written w' = written w @
         [(''corruption_report_'' @ str_int (py_int (time_time E)) @ ''.json'',
           JObject
            [(''timestamp'', JString (utcnow_isoformat E)),
             (''theta'', JNumber theta),
             (''q_score'', JNumber (q_coherence_scan theta color_avg)),
             (''alignment'', alignment),
             (''risk_score'', risk_score),
             (''summary'', summary),
             (''branches'', branches),
             (''intervention'', intervention)])]"
proof -
  from assms obtain vec theta color_avg r1 w3 alignment r2 w4 rep where
    fi: "from_image E path = Inr (vec, theta, color_avg)"
    and a1: "ask E (corruption_stage1 E theta (q_coherence_scan theta color_avg) color_avg)
       (LOG_info (Scores theta (q_coherence_scan theta color_avg)) (LOG_info (Running_scan path) w))
       = (Inr r1, w3)"
    and al: "getitem r1 ''alignment'' = Inr alignment"
    and a2: "ask E (corruption_stage2 E alignment theta) w3 = (Inr r2, w4)"
    and rep: "report E theta (q_coherence_scan theta color_avg) r1 r2 = Inr rep"
    and w': "w' = LOG_info (Report_saved (''corruption_report_'' @ str_int (py_int (time_time E)) @ ''.json''))
            (w4\<lparr>written := written w4 @
               [(''corruption_report_'' @ str_int (py_int (time_time E)) @ ''.json'', rep)]\<rparr>)"
    by (rule run_analysis_Inr)
  from ask_keeps(1) [OF a1] ask_keeps(1) [OF a2] have "written w4 = written w"
    by simp
  with w' have wr: "written w' = written w @
      [(''corruption_report_'' @ str_int (py_int (time_time E)) @ ''.json'', rep)]"
    by simp
  from rep al obtain risk_score summary branches intervention where
    "getitem r1 ''risk_score'' = Inr risk_score" "getitem r1 ''summary'' = Inr summary"
    "getitem r2 ''branches'' = Inr branches" "getitem r2 ''intervention'' = Inr intervention"
    "rep = JObject
         [(''timestamp'', JString (utcnow_isoformat E)),
          (''theta'', JNumber theta),
          (''q_score'', JNumber (q_coherence_scan theta color_avg)),
          (''alignment'', alignment),
          (''risk_score'', risk_score),
          (''summary'', summary),
          (''branches'', branches),
          (''intervention'', intervention)]"
    unfolding report_Inr by auto
  with fi a1 al a2 wr show ?thesis
    by blast
qed

theorem run_analysis_writes_one_report_witness:
  "run_analysis (stub_extern [[3, 4]] two_replies) IMAGE_PATH empty_world = (Inr (), complete_world)
   \<and> written complete_world = written empty_world @
       [(''corruption_report_1700000000.json'',
         JObject
          [(''timestamp'', JString ''2024-01-01T00:00:00''),
           (''theta'', JNumber pi),
           (''q_score'', JNumber (q_coherence_scan pi (1 / 2, 1 / 5))),
           (''alignment'', JString ''Saintly''),
           (''risk_score'', JNumber (15 / 2)),
           (''summary'', JString ''none''),
           (''branches'', JArray []),
           (''intervention'', JString ''none'')])]"
  using run_analysis_writes_one_report [OF stub_run_complete] stub_run_complete
  by (simp add: complete_world_def empty_world_def)

lemma ask_eq:
  "ask E prompt w =
     (fst (ask E prompt w),
      w\<lparr>requests := requests w @ [\<lparr>model = MODEL, content = prompt, max_tokens = 1000\<rparr>]\<rparr>)"
  by (simp add: prod_eq_iff ask_world)

lemma run_requests_none:
  assumes "from_image E path = Inl e"
  shows "run_analysis E path w = (Inl e, LOG_info (Running_scan path) w)"
  using assms by (simp add: run_analysis_def)

lemma run_requests_one:
  assumes "from_image E path = Inr (vec, theta, color_avg)"
    and "fst (ask E (corruption_stage1 E theta (q_coherence_scan theta color_avg) color_avg)
           (LOG_info (Scores theta (q_coherence_scan theta color_avg))
              (LOG_info (Running_scan path) w))) = Inl e
       \<or> fst (ask E (corruption_stage1 E theta (q_coherence_scan theta color_avg) color_avg)
           (LOG_info (Scores theta (q_coherence_scan theta color_avg))
              (LOG_info (Running_scan path) w))) = Inr parsed
         \<and> getitem parsed ''alignment'' = Inl e"
  shows "fst (run_analysis E path w) = Inl e"
    and "requests (snd (run_analysis E path w)) = requests w @
        [\<lparr>model = MODEL,
          content = corruption_stage1 E theta (q_coherence_scan theta color_avg) color_avg,
          max_tokens = 1000\<rparr>]"
proof -
  let ?p = "corruption_stage1 E theta (q_coherence_scan theta color_avg) color_avg"
  let ?w2 = "LOG_info (Scores theta (q_coherence_scan theta color_avg))
              (LOG_info (Running_scan path) w)"
  obtain w3 where a: "ask E ?p ?w2 = (fst (ask E ?p ?w2), w3)"
    and w3: "requests w3 = requests w @ [\<lparr>model = MODEL, content = ?p, max_tokens = 1000\<rparr>]"
    using ask_eq [of E ?p ?w2] by simp
  from assms(2) have run: "run_analysis E path w = (Inl e, w3)"
    unfolding run_analysis_after_from_image [OF assms(1)]
    by (subst a, auto)+
  from run show "fst (run_analysis E path w) = Inl e"
    by simp
  from run w3 show "requests (snd (run_analysis E path w)) = requests w @
        [\<lparr>model = MODEL, content = ?p, max_tokens = 1000\<rparr>]"
    by simp
qed

lemma run_requests_two:
  assumes "from_image E path = Inr (vec, theta, color_avg)"
    and "fst (ask E (corruption_stage1 E theta (q_coherence_scan theta color_avg) color_avg)
           (LOG_info (Scores theta (q_coherence_scan theta color_avg))
              (LOG_info (Running_scan path) w))) = Inr parsed"
    and "getitem parsed ''alignment'' = Inr alignment"
  shows "requests (snd (run_analysis E path w)) = requests w @
        [\<lparr>model = MODEL,
          content = corruption_stage1 E theta (q_coherence_scan theta color_avg) color_avg,
          max_tokens = 1000\<rparr>,
         \<lparr>model = MODEL, content = corruption_stage2 E alignment theta, max_tokens = 1000\<rparr>]"
proof -
  let ?p = "corruption_stage1 E theta (q_coherence_scan theta color_avg) color_avg"
  let ?w2 = "LOG_info (Scores theta (q_coherence_scan theta color_avg))
              (LOG_info (Running_scan path) w)"
  obtain w3 where a: "ask E ?p ?w2 = (Inr parsed, w3)"
    and w3: "requests w3 = requests w @ [\<lparr>model = MODEL, content = ?p, max_tokens = 1000\<rparr>]"
    using ask_eq [of E ?p ?w2] assms(2) by simp
  obtain res w4 where b: "ask E (corruption_stage2 E alignment theta) w3 = (res, w4)"
    by (cases "ask E (corruption_stage2 E alignment theta) w3")
  from ask_keeps(2) [OF b] w3 have w4: "requests w4 = requests w @
      [\<lparr>model = MODEL, content = ?p, max_tokens = 1000\<rparr>,
       \<lparr>model = MODEL, content = corruption_stage2 E alignment theta, max_tokens = 1000\<rparr>]"
    by simp
  have "requests (snd (run_analysis E path w)) = requests w4"
    unfolding run_analysis_after_from_image [OF assms(1)]
    by (simp add: a assms(3) b split: sum.splits)
  with w4 show ?thesis
    by simp
qed

lemma completed_run_requests:
  assumes "fst (run_analysis E path w) = Inr ()"
  shows "\<exists>vec theta color_avg res1 r1 alignment res2 r2.
            from_image E path = Inr (vec, theta, color_avg)
          \<and> ChatCompletion_create E (length (requests w))
               \<lparr>model = MODEL,
                content = corruption_stage1 E theta (q_coherence_scan theta color_avg) color_avg,
                max_tokens = 1000\<rparr> = Inr res1
          \<and> json_loads E res1 = Inr r1
          \<and> getitem r1 ''alignment'' = Inr alignment
          \<and> ChatCompletion_create E (Suc (length (requests w)))
               \<lparr>model = MODEL, content = corruption_stage2 E alignment theta, max_tokens = 1000\<rparr>
               = Inr res2
          \<and> json_loads E res2 = Inr r2
          \<and> requests (snd (run_analysis E path w)) = requests w @
               [\<lparr>model = MODEL,
                 content = corruption_stage1 E theta (q_coherence_scan theta color_avg) color_avg,
                 max_tokens = 1000\<rparr>,
                \<lparr>model = MODEL, content = corruption_stage2 E alignment theta, max_tokens = 1000\<rparr>]"
proof -
  from assms have "run_analysis E path w = (Inr (), snd (run_analysis E path w))"
    by (simp add: prod_eq_iff)
  then obtain vec theta color_avg r1 w3 alignment r2 w4 rep where
    fi: "from_image E path = Inr (vec, theta, color_avg)"
    and a1: "ask E (corruption_stage1 E theta (q_coherence_scan theta color_avg) color_avg)
       (LOG_info (Scores theta (q_coherence_scan theta color_avg)) (LOG_info (Running_scan path) w))
       = (Inr r1, w3)"
    and al: "getitem r1 ''alignment'' = Inr alignment"
    and a2: "ask E (corruption_stage2 E alignment theta) w3 = (Inr r2, w4)"
    and w': "snd (run_analysis E path w) =
          LOG_info (Report_saved (''corruption_report_'' @ str_int (py_int (time_time E)) @ ''.json''))
            (w4\<lparr>written := written w4 @
               [(''corruption_report_'' @ str_int (py_int (time_time E)) @ ''.json'', rep)]\<rparr>)"
    by (rule run_analysis_Inr)
  from ask_keeps(2) [OF a1] have rq3: "requests w3 = requests w @
      [\<lparr>model = MODEL,
        content = corruption_stage1 E theta (q_coherence_scan theta color_avg) color_avg,
        max_tokens = 1000\<rparr>]"
    by simp
  from ask_keeps(2) [OF a2] rq3 have rq4: "requests w4 = requests w @
      [\<lparr>model = MODEL,
        content = corruption_stage1 E theta (q_coherence_scan theta color_avg) color_avg,
        max_tokens = 1000\<rparr>,
       \<lparr>model = MODEL, content = corruption_stage2 E alignment theta, max_tokens = 1000\<rparr>]"
    by simp
  from w' rq4 have final: "requests (snd (run_analysis E path w)) = requests w @
      [\<lparr>model = MODEL,
        content = corruption_stage1 E theta (q_coherence_scan theta color_avg) color_avg,
        max_tokens = 1000\<rparr>,
       \<lparr>model = MODEL, content = corruption_stage2 E alignment theta, max_tokens = 1000\<rparr>]"
    by simp
  from a1 obtain res1 where c1: "ChatCompletion_create E (length (requests w))
               \<lparr>model = MODEL,
                content = corruption_stage1 E theta (q_coherence_scan theta color_avg) color_avg,
                max_tokens = 1000\<rparr> = Inr res1" "json_loads E res1 = Inr r1"
    by (rule ask_Inr) simp
  from a2 obtain res2 where c2: "ChatCompletion_create E (length (requests w3))
      \<lparr>model = MODEL, content = corruption_stage2 E alignment theta, max_tokens = 1000\<rparr> = Inr res2"
      "json_loads E res2 = Inr r2"
    by (rule ask_Inr)
  from c2(1) rq3 have c2': "ChatCompletion_create E (Suc (length (requests w)))
      \<lparr>model = MODEL, content = corruption_stage2 E alignment theta, max_tokens = 1000\<rparr> = Inr res2"
    by simp
  from fi c1 al c2' c2(2) final
  show "\<exists>vec theta color_avg res1 r1 alignment res2 r2.
            from_image E path = Inr (vec, theta, color_avg)
          \<and> ChatCompletion_create E (length (requests w))
               \<lparr>model = MODEL,
                content = corruption_stage1 E theta (q_coherence_scan theta color_avg) color_avg,
                max_tokens = 1000\<rparr> = Inr res1
          \<and> json_loads E res1 = Inr r1
          \<and> getitem r1 ''alignment'' = Inr alignment
          \<and> ChatCompletion_create E (Suc (length (requests w)))
               \<lparr>model = MODEL, content = corruption_stage2 E alignment theta, max_tokens = 1000\<rparr>
               = Inr res2
          \<and> json_loads E res2 = Inr r2
          \<and> requests (snd (run_analysis E path w)) = requests w @
               [\<lparr>model = MODEL,
                 content = corruption_stage1 E theta (q_coherence_scan theta color_avg) color_avg,
                 max_tokens = 1000\<rparr>,
                \<lparr>model = MODEL, content = corruption_stage2 E alignment theta, max_tokens = 1000\<rparr>]"
    by blast
qed


text \<open>
  C6, as stated: every run makes exactly two requests. A run on an image without a face
  makes none.
\<close>

theorem every_run_two_requests_counterexample:
  "length (requests (snd (run_analysis (stub_extern [] two_replies) IMAGE_PATH empty_world))) = 0"
  by (simp add: stub_run_no_face)

text \<open>
  C6, amended. No run makes more than two requests, and they are made one after the other.
  A run in which a face is found and the first reply parses and has an \<open>alignment\<close> field
  makes exactly two, whether it then completes or fails; every run that completes is such
  a run. The first request carries the first prompt; its reply is parsed once, and the
  second request carries the second prompt built from the \<open>alignment\<close> field of that parsed
  reply (and \<open>theta\<close>); the second reply is parsed once. A run that \<open>from_image\<close> ends makes
  no request; a run whose first request fails, or whose first reply does not parse or has
  no \<open>alignment\<close> field, makes exactly one. Nothing is asked again and nothing is required
  of a parsed reply beyond the fields that are read.
\<close>

theorem run_analysis_requests_in_sequence:
  "(\<exists>rs. requests (snd (run_analysis E path w)) = requests w @ rs \<and> length rs \<le> 2)
   \<and> (from_image E path = Inl failure \<longrightarrow>
        requests (snd (run_analysis E path w)) = requests w)
   \<and> (from_image E path = Inr (vec, theta, color_avg)
        \<and> (ChatCompletion_create E (length (requests w))
               \<lparr>model = MODEL,
                content = corruption_stage1 E theta (q_coherence_scan theta color_avg) color_avg,
                max_tokens = 1000\<rparr> = Inl e
           \<or> ChatCompletion_create E (length (requests w))
               \<lparr>model = MODEL,
                content = corruption_stage1 E theta (q_coherence_scan theta color_avg) color_avg,
                max_tokens = 1000\<rparr> = Inr reply
             \<and> (json_loads E reply = Inl e
                \<or> json_loads E reply = Inr parsed \<and> getitem parsed ''alignment'' = Inl e))
        \<longrightarrow>
        fst (run_analysis E path w) = Inl e
        \<and> requests (snd (run_analysis E path w)) = requests w @
              [\<lparr>model = MODEL,
                content = corruption_stage1 E theta (q_coherence_scan theta color_avg) color_avg,
                max_tokens = 1000\<rparr>])
   \<and> (from_image E path = Inr (vec, theta, color_avg)
        \<and> ChatCompletion_create E (length (requests w))
               \<lparr>model = MODEL,
                content = corruption_stage1 E theta (q_coherence_scan theta color_avg) color_avg,
                max_tokens = 1000\<rparr> = Inr reply
        \<and> json_loads E reply = Inr parsed
        \<and> getitem parsed ''alignment'' = Inr alignment
        \<longrightarrow>
        requests (snd (run_analysis E path w)) = requests w @
              [\<lparr>model = MODEL,
                content = corruption_stage1 E theta (q_coherence_scan theta color_avg) color_avg,
                max_tokens = 1000\<rparr>,
               \<lparr>model = MODEL, content = corruption_stage2 E alignment theta, max_tokens = 1000\<rparr>])
   \<and> (fst (run_analysis E path w) = Inr () \<longrightarrow>
        (\<exists>vec theta color_avg res1 r1 alignment res2 r2.
            from_image E path = Inr (vec, theta, color_avg)
          \<and> ChatCompletion_create E (length (requests w))
               \<lparr>model = MODEL,
                content = corruption_stage1 E theta (q_coherence_scan theta color_avg) color_avg,
                max_tokens = 1000\<rparr> = Inr res1
          \<and> json_loads E res1 = Inr r1
          \<and> getitem r1 ''alignment'' = Inr alignment
          \<and> ChatCompletion_create E (Suc (length (requests w)))
               \<lparr>model = MODEL, content = corruption_stage2 E alignment theta, max_tokens = 1000\<rparr>
               = Inr res2
          \<and> json_loads E res2 = Inr r2
          \<and> requests (snd (run_analysis E path w)) = requests w @
               [\<lparr>model = MODEL,
                 content = corruption_stage1 E theta (q_coherence_scan theta color_avg) color_avg,
                 max_tokens = 1000\<rparr>,
                \<lparr>model = MODEL, content = corruption_stage2 E alignment theta, max_tokens = 1000\<rparr>]))"
proof (intro conjI impI)
  show "\<exists>rs. requests (snd (run_analysis E path w)) = requests w @ rs \<and> length rs \<le> 2"
    by (rule run_analysis_requests_bound)
next
  assume "from_image E path = Inl failure"
  then show "requests (snd (run_analysis E path w)) = requests w"
    by (simp add: run_requests_none)
next
  assume h: "from_image E path = Inr (vec, theta, color_avg)
        \<and> (ChatCompletion_create E (length (requests w))
               \<lparr>model = MODEL,
                content = corruption_stage1 E theta (q_coherence_scan theta color_avg) color_avg,
                max_tokens = 1000\<rparr> = Inl e
           \<or> ChatCompletion_create E (length (requests w))
               \<lparr>model = MODEL,
                content = corruption_stage1 E theta (q_coherence_scan theta color_avg) color_avg,
                max_tokens = 1000\<rparr> = Inr reply
             \<and> (json_loads E reply = Inl e
                \<or> json_loads E reply = Inr parsed \<and> getitem parsed ''alignment'' = Inl e))"
  then have fi: "from_image E path = Inr (vec, theta, color_avg)"
    by blast
  from h have "fst (ask E (corruption_stage1 E theta (q_coherence_scan theta color_avg) color_avg)
           (LOG_info (Scores theta (q_coherence_scan theta color_avg))
              (LOG_info (Running_scan path) w))) = Inl e
       \<or> fst (ask E (corruption_stage1 E theta (q_coherence_scan theta color_avg) color_avg)
           (LOG_info (Scores theta (q_coherence_scan theta color_avg))
              (LOG_info (Running_scan path) w))) = Inr parsed
         \<and> getitem parsed ''alignment'' = Inl e"
    by (auto simp add: ask_result)
  from run_requests_one [OF fi this]
  show "fst (run_analysis E path w) = Inl e"
    and "requests (snd (run_analysis E path w)) = requests w @
              [\<lparr>model = MODEL,
                content = corruption_stage1 E theta (q_coherence_scan theta color_avg) color_avg,
                max_tokens = 1000\<rparr>]"
    by blast+
next
  assume h: "from_image E path = Inr (vec, theta, color_avg)
        \<and> ChatCompletion_create E (length (requests w))
               \<lparr>model = MODEL,
                content = corruption_stage1 E theta (q_coherence_scan theta color_avg) color_avg,
                max_tokens = 1000\<rparr> = Inr reply
        \<and> json_loads E reply = Inr parsed
        \<and> getitem parsed ''alignment'' = Inr alignment"
  then have fi: "from_image E path = Inr (vec, theta, color_avg)"
    and al: "getitem parsed ''alignment'' = Inr alignment"
    by blast+
  from h have "fst (ask E (corruption_stage1 E theta (q_coherence_scan theta color_avg) color_avg)
           (LOG_info (Scores theta (q_coherence_scan theta color_avg))
              (LOG_info (Running_scan path) w))) = Inr parsed"
    by (simp add: ask_result)
  from run_requests_two [OF fi this al]
  show "requests (snd (run_analysis E path w)) = requests w @
              [\<lparr>model = MODEL,
                content = corruption_stage1 E theta (q_coherence_scan theta color_avg) color_avg,
                max_tokens = 1000\<rparr>,
               \<lparr>model = MODEL, content = corruption_stage2 E alignment theta, max_tokens = 1000\<rparr>]" .
next
  assume "fst (run_analysis E path w) = Inr ()"
  then show "\<exists>vec theta color_avg res1 r1 alignment res2 r2.
            from_image E path = Inr (vec, theta, color_avg)
          \<and> ChatCompletion_create E (length (requests w))
               \<lparr>model = MODEL,
                content = corruption_stage1 E theta (q_coherence_scan theta color_avg) color_avg,
                max_tokens = 1000\<rparr> = Inr res1
          \<and> json_loads E res1 = Inr r1
          \<and> getitem r1 ''alignment'' = Inr alignment
          \<and> ChatCompletion_create E (Suc (length (requests w)))
               \<lparr>model = MODEL, content = corruption_stage2 E alignment theta, max_tokens = 1000\<rparr>
               = Inr res2
          \<and> json_loads E res2 = Inr r2
          \<and> requests (snd (run_analysis E path w)) = requests w @
               [\<lparr>model = MODEL,
                 content = corruption_stage1 E theta (q_coherence_scan theta color_avg) color_avg,
                 max_tokens = 1000\<rparr>,
                \<lparr>model = MODEL, content = corruption_stage2 E alignment theta, max_tokens = 1000\<rparr>]"
    by (rule completed_run_requests)
qed

theorem run_analysis_requests_in_sequence_witness:
  "fst (run_analysis (stub_extern [[3, 4]] two_replies) IMAGE_PATH empty_world) = Inr ()
   \<and> requests (snd (run_analysis (stub_extern [[3, 4]] two_replies) IMAGE_PATH empty_world)) =
       [\<lparr>model = MODEL,
         content = corruption_stage1 (stub_extern [[3, 4]] two_replies) pi
                     (q_coherence_scan pi (1 / 2, 1 / 5)) (1 / 2, 1 / 5),
         max_tokens = 1000\<rparr>,
        \<lparr>model = MODEL,
         content = corruption_stage2 (stub_extern [[3, 4]] two_replies) (JString ''Saintly'') pi,
         max_tokens = 1000\<rparr>]
   \<and> fst (run_analysis (stub_extern [[3, 4]] (\<lambda>n. if n = 0 then Inr ''first'' else Inr ''garbled''))
          IMAGE_PATH empty_world) = Inl JSONDecodeError
   \<and> length (requests (snd (run_analysis
          (stub_extern [[3, 4]] (\<lambda>n. if n = 0 then Inr ''first'' else Inr ''garbled''))
          IMAGE_PATH empty_world))) = 2
   \<and> fst (run_analysis (stub_extern [[3, 4]] (\<lambda>n. Inr ''garbled'')) IMAGE_PATH empty_world)
       = Inl JSONDecodeError
   \<and> length (requests (snd (run_analysis (stub_extern [[3, 4]] (\<lambda>n. Inr ''garbled''))
          IMAGE_PATH empty_world))) = 1
   \<and> from_image (stub_extern [] two_replies) IMAGE_PATH = Inl (ValueError ''No face found in image.'')
   \<and> requests (snd (run_analysis (stub_extern [] two_replies) IMAGE_PATH empty_world)) = []"
proof -
  have fi: "from_image (stub_extern [[3, 4]] replies) IMAGE_PATH = Inr ([3, 4], pi, (1 / 2, 1 / 5))"
    for replies
    unfolding stub_from_image norm_3_4 by simp
  have w0: "requests empty_world = []"
    by (simp add: empty_world_def)
  let ?A = "stub_extern [[3, 4]] two_replies"
  let ?B = "stub_extern [[3, 4]] (\<lambda>n. if n = 0 then Inr ''first'' else Inr ''garbled'')"
  let ?C = "stub_extern [[3, 4]] (\<lambda>n. Inr ''garbled'')"
  let ?D = "stub_extern [] two_replies"
  let ?first = "JObject [(''alignment'', JString ''Saintly''), (''summary'', JString ''none''),
                        (''risk_score'', JNumber (15 / 2))]"
  have a: "fst (run_analysis ?A IMAGE_PATH empty_world) = Inr ()
      \<and> requests (snd (run_analysis ?A IMAGE_PATH empty_world)) =
       [\<lparr>model = MODEL,
         content = corruption_stage1 ?A pi (q_coherence_scan pi (1 / 2, 1 / 5)) (1 / 2, 1 / 5),
         max_tokens = 1000\<rparr>,
        \<lparr>model = MODEL, content = corruption_stage2 ?A (JString ''Saintly'') pi,
         max_tokens = 1000\<rparr>]"
    using run_analysis_requests_in_sequence [where E = "?A" and path = IMAGE_PATH
        and w = empty_world and vec = "[3, 4]" and theta = pi and color_avg = "(1 / 2, 1 / 5)"
        and reply = "''first''" and parsed = "?first" and alignment = "JString ''Saintly''"]
    by (simp add: fi w0 stub_fields two_replies_def stub_run_complete)
  have b2: "requests (snd (run_analysis ?B IMAGE_PATH empty_world)) =
       [\<lparr>model = MODEL,
         content = corruption_stage1 ?B pi (q_coherence_scan pi (1 / 2, 1 / 5)) (1 / 2, 1 / 5),
         max_tokens = 1000\<rparr>,
        \<lparr>model = MODEL, content = corruption_stage2 ?B (JString ''Saintly'') pi,
         max_tokens = 1000\<rparr>]"
    using run_analysis_requests_in_sequence [where E = "?B" and path = IMAGE_PATH
        and w = empty_world and vec = "[3, 4]" and theta = pi and color_avg = "(1 / 2, 1 / 5)"
        and reply = "''first''" and parsed = "?first" and alignment = "JString ''Saintly''"]
    by (simp add: fi w0 stub_fields)
  have b1: "fst (run_analysis ?B IMAGE_PATH empty_world) = Inl JSONDecodeError"
    unfolding run_analysis_after_from_image [OF fi]
    by (simp add: ask_def Let_def stub_fields LOG_info_def empty_world_def)
  have c: "fst (run_analysis ?C IMAGE_PATH empty_world) = Inl JSONDecodeError
      \<and> requests (snd (run_analysis ?C IMAGE_PATH empty_world)) =
       [\<lparr>model = MODEL,
         content = corruption_stage1 ?C pi (q_coherence_scan pi (1 / 2, 1 / 5)) (1 / 2, 1 / 5),
         max_tokens = 1000\<rparr>]"
    using run_analysis_requests_in_sequence [where E = "?C" and path = IMAGE_PATH
        and w = empty_world and vec = "[3, 4]" and theta = pi and color_avg = "(1 / 2, 1 / 5)"
        and reply = "''garbled''" and e = JSONDecodeError]
    by (simp add: fi w0 stub_fields)
  have d: "requests (snd (run_analysis ?D IMAGE_PATH empty_world)) = []"
    using run_analysis_requests_in_sequence [where E = "?D" and path = IMAGE_PATH
        and w = empty_world and failure = "ValueError ''No face found in image.''"]
    by (simp add: stub_no_face w0)
  from a b1 b2 c d stub_no_face [of two_replies IMAGE_PATH] show ?thesis
    by simp
qed

text \<open>
  C7. Past the face check, nothing is caught. An error of the endpoint (missing
  credential, network failure) or of the JSON parser is the result of \<open>ask\<close>; an error of
  either \<open>ask\<close>, or a field missing from a parsed reply, is the result of the run; and a run
  that ends in an error has written no file.
\<close>

theorem failures_propagate_and_write_nothing:
  assumes "from_image E path = Inr (vec, theta, color_avg)"
    and "run_analysis E path w = (res, w')"
    and "first = ask E (corruption_stage1 E theta (q_coherence_scan theta color_avg) color_avg)
                (LOG_info (Scores theta (q_coherence_scan theta color_avg))
                   (LOG_info (Running_scan path) w))"
    and "second = ask E (corruption_stage2 E alignment theta) (snd first)"
  shows
   "(ChatCompletion_create E (length (requests wa))
        \<lparr>model = MODEL, content = prompt, max_tokens = 1000\<rparr> = Inl e
       \<longrightarrow> fst (ask E prompt wa) = Inl e)
  \<and> (ChatCompletion_create E (length (requests wa))
        \<lparr>model = MODEL, content = prompt, max_tokens = 1000\<rparr> = Inr reply
       \<and> json_loads E reply = Inl e
       \<longrightarrow> fst (ask E prompt wa) = Inl e)
  \<and> (fst first = Inl e \<longrightarrow> res = Inl e)
  \<and> (fst first = Inr parsed_a \<and> getitem parsed_a ''alignment'' = Inl e \<longrightarrow> res = Inl e)
  \<and> (fst first = Inr parsed_a \<and> getitem parsed_a ''alignment'' = Inr alignment \<and> fst second = Inl e
       \<longrightarrow> res = Inl e)
  \<and> (fst first = Inr parsed_a \<and> getitem parsed_a ''alignment'' = Inr alignment \<and> fst second = Inr parsed_b
       \<and> (getitem parsed_a ''risk_score'' = Inl e
          \<or> getitem parsed_a ''risk_score'' = Inr risk_score
            \<and> (getitem parsed_a ''summary'' = Inl e
               \<or> getitem parsed_a ''summary'' = Inr summary
                 \<and> (getitem parsed_b ''branches'' = Inl e
                    \<or> getitem parsed_b ''branches'' = Inr branches
                      \<and> getitem parsed_b ''intervention'' = Inl e)))
       \<longrightarrow> res = Inl e)
  \<and> (res = Inl e \<longrightarrow> written w' = written w)"
proof -
  have run: "run_analysis E path w =
     (case first of
        (Inl e, w3) \<Rightarrow> (Inl e, w3)
      | (Inr parsed_a, w3) \<Rightarrow>
          (case getitem parsed_a ''alignment'' of
             Inl e \<Rightarrow> (Inl e, w3)
           | Inr alignment \<Rightarrow>
               (case ask E (corruption_stage2 E alignment theta) w3 of
                  (Inl e, w4) \<Rightarrow> (Inl e, w4)
                | (Inr parsed_b, w4) \<Rightarrow>
                    (case report E theta (q_coherence_scan theta color_avg) parsed_a parsed_b of
                       Inl e \<Rightarrow> (Inl e, w4)
                     | Inr rep \<Rightarrow>
                         (Inr (),
                          LOG_info (Report_saved
                              (''corruption_report_'' @ str_int (py_int (time_time E)) @ ''.json''))
                            (w4\<lparr>written := written w4 @
                               [(''corruption_report_'' @ str_int (py_int (time_time E)) @ ''.json'',
                                 rep)]\<rparr>))))))"
    unfolding assms(3) by (rule run_analysis_after_from_image [OF assms(1)])
  have res: "res = fst (run_analysis E path w)"
    using assms(2) by simp
  have c1: "ChatCompletion_create E (length (requests wa))
        \<lparr>model = MODEL, content = prompt, max_tokens = 1000\<rparr> = Inl e
       \<longrightarrow> fst (ask E prompt wa) = Inl e"
    by (simp add: ask_result)
  have c2: "ChatCompletion_create E (length (requests wa))
        \<lparr>model = MODEL, content = prompt, max_tokens = 1000\<rparr> = Inr reply
       \<and> json_loads E reply = Inl e
       \<longrightarrow> fst (ask E prompt wa) = Inl e"
    by (simp add: ask_result)
  have c3: "fst first = Inl e \<longrightarrow> res = Inl e"
    unfolding res run by (cases first) (auto split: sum.splits prod.splits)
  have c4: "fst first = Inr parsed_a \<and> getitem parsed_a ''alignment'' = Inl e \<longrightarrow> res = Inl e"
    unfolding res run by (cases first) (auto split: sum.splits prod.splits)
  have c5: "fst first = Inr parsed_a \<and> getitem parsed_a ''alignment'' = Inr alignment \<and> fst second = Inl e
       \<longrightarrow> res = Inl e"
    unfolding res run assms(4) by (cases first) (auto split: sum.splits prod.splits)
  have c6: "fst first = Inr parsed_a \<and> getitem parsed_a ''alignment'' = Inr alignment \<and> fst second = Inr parsed_b
       \<and> (getitem parsed_a ''risk_score'' = Inl e
          \<or> getitem parsed_a ''risk_score'' = Inr risk_score
            \<and> (getitem parsed_a ''summary'' = Inl e
               \<or> getitem parsed_a ''summary'' = Inr summary
                 \<and> (getitem parsed_b ''branches'' = Inl e
                    \<or> getitem parsed_b ''branches'' = Inr branches
                      \<and> getitem parsed_b ''intervention'' = Inl e)))
       \<longrightarrow> res = Inl e"
  proof
    assume h: "fst first = Inr parsed_a \<and> getitem parsed_a ''alignment'' = Inr alignment \<and> fst second = Inr parsed_b
       \<and> (getitem parsed_a ''risk_score'' = Inl e
          \<or> getitem parsed_a ''risk_score'' = Inr risk_score
            \<and> (getitem parsed_a ''summary'' = Inl e
               \<or> getitem parsed_a ''summary'' = Inr summary
                 \<and> (getitem parsed_b ''branches'' = Inl e
                    \<or> getitem parsed_b ''branches'' = Inr branches
                      \<and> getitem parsed_b ''intervention'' = Inl e)))"
    then have "report E theta (q_coherence_scan theta color_avg) parsed_a parsed_b = Inl e"
      unfolding report_Inl by auto
    with h show "res = Inl e"
      unfolding res run assms(4) by (cases first) (auto split: sum.splits prod.splits)
  qed
  have c7: "res = Inl e \<longrightarrow> written w' = written w"
    using assms(2) by (auto dest: run_analysis_Inl_written)
  from c1 c2 c3 c4 c5 c6 c7 show ?thesis
    by (intro conjI)
qed

theorem failures_propagate_and_write_nothing_witness:
  "fst (run_analysis (stub_extern [[3, 4]] (\<lambda>n. Inl AuthenticationError)) IMAGE_PATH empty_world)
     = Inl AuthenticationError
   \<and> written (snd (run_analysis (stub_extern [[3, 4]] (\<lambda>n. Inl AuthenticationError)) IMAGE_PATH
        empty_world)) = []
   \<and> fst (run_analysis (stub_extern [[3, 4]] (\<lambda>n. Inr ''garbled'')) IMAGE_PATH empty_world)
     = Inl JSONDecodeError
   \<and> written (snd (run_analysis (stub_extern [[3, 4]] (\<lambda>n. Inr ''garbled'')) IMAGE_PATH
        empty_world)) = []
   \<and> fst (run_analysis (stub_extern [[3, 4]] (\<lambda>n. Inr ''bare'')) IMAGE_PATH empty_world)
     = Inl (KeyError ''alignment'')
   \<and> written (snd (run_analysis (stub_extern [[3, 4]] (\<lambda>n. Inr ''bare'')) IMAGE_PATH
        empty_world)) = []"
proof -
  have fi: "from_image (stub_extern [[3, 4]] replies) IMAGE_PATH = Inr ([3, 4], pi, (1 / 2, 1 / 5))"
    for replies
    unfolding stub_from_image norm_3_4 by simp
  have pair: "run_analysis E IMAGE_PATH empty_world =
      (fst (run_analysis E IMAGE_PATH empty_world), snd (run_analysis E IMAGE_PATH empty_world))"
    for E
    by simp
  have w0: "written empty_world = []"
    by (simp add: empty_world_def)
  let ?w2 = "LOG_info (Scores pi (q_coherence_scan pi (1 / 2, 1 / 5)))
               (LOG_info (Running_scan IMAGE_PATH) empty_world)"
  let ?p1 = "\<lambda>E. corruption_stage1 E pi (q_coherence_scan pi (1 / 2, 1 / 5)) (1 / 2, 1 / 5)"
  let ?A = "stub_extern [[3, 4]] (\<lambda>n. Inl AuthenticationError)"
  let ?B = "stub_extern [[3, 4]] (\<lambda>n. Inr ''garbled'')"
  let ?C = "stub_extern [[3, 4]] (\<lambda>n. Inr ''bare'')"
  have a: "fst (run_analysis ?A IMAGE_PATH empty_world) = Inl AuthenticationError
      \<and> written (snd (run_analysis ?A IMAGE_PATH empty_world)) = []"
    using failures_propagate_and_write_nothing [OF fi pair refl refl,
        where e = AuthenticationError and wa = "?w2" and prompt = "?p1 ?A"]
    by (simp add: stub_fields w0)
  have b: "fst (run_analysis ?B IMAGE_PATH empty_world) = Inl JSONDecodeError
      \<and> written (snd (run_analysis ?B IMAGE_PATH empty_world)) = []"
    using failures_propagate_and_write_nothing [OF fi pair refl refl,
        where e = JSONDecodeError and wa = "?w2" and prompt = "?p1 ?B" and reply = "''garbled''"]
    by (simp add: stub_fields w0)
  have "fst (ask ?C (?p1 ?C) ?w2) = Inr (JObject [])"
    by (simp add: ask_result stub_fields)
  then have c: "fst (run_analysis ?C IMAGE_PATH empty_world) = Inl (KeyError ''alignment'')
      \<and> written (snd (run_analysis ?C IMAGE_PATH empty_world)) = []"
    using failures_propagate_and_write_nothing [OF fi pair refl refl,
        where e = "KeyError ''alignment''" and parsed_a = "JObject []"]
    by (simp add: w0)
  from a b c show ?thesis
    by blast
qed

text \<open>
  C10. The \<open>risk_score\<close> and \<open>alignment\<close> of the report are the values of those fields in
  the first parsed reply, whatever they are: no range and no label is checked. In the
  instance below the score is 7.5 and the label is none of the three the prompt names.
\<close>

theorem report_copies_first_response_verbatim:
  assumes "from_image E path = Inr (vec, theta, color_avg)"
    and "ask E (corruption_stage1 E theta (q_coherence_scan theta color_avg) color_avg)
           (LOG_info (Scores theta (q_coherence_scan theta color_avg))
              (LOG_info (Running_scan path) w)) = (Inr r1, w3)"
    and "getitem r1 ''alignment'' = Inr alignment"
    and "getitem r1 ''risk_score'' = Inr risk_score"
    and "getitem r1 ''summary'' = Inr summary"
    and "ask E (corruption_stage2 E alignment theta) w3 = (Inr r2, w4)"
    and "getitem r2 ''branches'' = Inr branches"
    and "getitem r2 ''intervention'' = Inr intervention"
  shows "\<exists>rep. fst (run_analysis E path w) = Inr ()
     \<and> written (snd (run_analysis E path w)) = written w @
          [(''corruption_report_'' @ str_int (py_int (time_time E)) @ ''.json'', rep)]
     \<and> getitem rep ''risk_score'' = Inr risk_score
     \<and> getitem rep ''alignment'' = Inr alignment"
proof -
  let ?rep = "JObject
         [(''timestamp'', JString (utcnow_isoformat E)),
          (''theta'', JNumber theta),
          (''q_score'', JNumber (q_coherence_scan theta color_avg)),
          (''alignment'', alignment),
          (''risk_score'', risk_score),
          (''summary'', summary),
          (''branches'', branches),
          (''intervention'', intervention)]"
  let ?fn = "''corruption_report_'' @ str_int (py_int (time_time E)) @ ''.json''"
  from assms(3,4,5,7,8) have rep: "report E theta (q_coherence_scan theta color_avg) r1 r2 = Inr ?rep"
    unfolding report_Inr by simp
  have run: "run_analysis E path w =
      (Inr (), LOG_info (Report_saved ?fn) (w4\<lparr>written := written w4 @ [(?fn, ?rep)]\<rparr>))"
    unfolding run_analysis_after_from_image [OF assms(1)]
    by (simp add: assms(2,3,6) rep)
  from ask_keeps(1) [OF assms(2)] ask_keeps(1) [OF assms(6)] have "written w4 = written w"
    by simp
  with run have "fst (run_analysis E path w) = Inr ()"
    "written (snd (run_analysis E path w)) = written w @ [(?fn, ?rep)]"
    by simp_all
  moreover have "getitem ?rep ''risk_score'' = Inr risk_score"
    "getitem ?rep ''alignment'' = Inr alignment"
    by simp_all
  ultimately show ?thesis
    by blast
qed

theorem report_copies_first_response_verbatim_witness:
  "written (snd (run_analysis (stub_extern [[3, 4]] two_replies) IMAGE_PATH empty_world)) =
     [(''corruption_report_1700000000.json'',
       JObject
        [(''timestamp'', JString ''2024-01-01T00:00:00''),
         (''theta'', JNumber pi),
         (''q_score'', JNumber (q_coherence_scan pi (1 / 2, 1 / 5))),
         (''alignment'', JString ''Saintly''),
         (''risk_score'', JNumber (15 / 2)),
         (''summary'', JString ''none''),
         (''branches'', JArray []),
         (''intervention'', JString ''none'')])]
   \<and> (\<exists>rep. written (snd (run_analysis (stub_extern [[3, 4]] two_replies) IMAGE_PATH empty_world)) =
          written empty_world @ [(''corruption_report_1700000000.json'', rep)]
        \<and> getitem rep ''risk_score'' = Inr (JNumber (15 / 2))
        \<and> getitem rep ''alignment'' = Inr (JString ''Saintly''))
   \<and> \<not> (15 / 2 \<le> (1::real))"
proof -
  let ?E = "stub_extern [[3, 4]] two_replies"
  let ?r1 = "JObject [(''alignment'', JString ''Saintly''), (''summary'', JString ''none''),
                      (''risk_score'', JNumber (15 / 2))]"
  let ?r2 = "JObject [(''branches'', JArray []), (''intervention'', JString ''none'')]"
  let ?w2 = "LOG_info (Scores pi (q_coherence_scan pi (1 / 2, 1 / 5)))
               (LOG_info (Running_scan IMAGE_PATH) empty_world)"
  have fi: "from_image ?E IMAGE_PATH = Inr ([3, 4], pi, (1 / 2, 1 / 5))"
    unfolding stub_from_image norm_3_4 by simp
  have a1: "ask ?E (corruption_stage1 ?E pi (q_coherence_scan pi (1 / 2, 1 / 5)) (1 / 2, 1 / 5)) ?w2
      = (Inr ?r1, snd (ask ?E (corruption_stage1 ?E pi (q_coherence_scan pi (1 / 2, 1 / 5)) (1 / 2, 1 / 5)) ?w2))"
    by (simp add: prod_eq_iff ask_result stub_fields two_replies_def LOG_info_def empty_world_def)
  have a2: "ask ?E (corruption_stage2 ?E (JString ''Saintly'') pi)
        (snd (ask ?E (corruption_stage1 ?E pi (q_coherence_scan pi (1 / 2, 1 / 5)) (1 / 2, 1 / 5)) ?w2))
      = (Inr ?r2, snd (ask ?E (corruption_stage2 ?E (JString ''Saintly'') pi)
        (snd (ask ?E (corruption_stage1 ?E pi (q_coherence_scan pi (1 / 2, 1 / 5)) (1 / 2, 1 / 5)) ?w2))))"
    by (simp add: prod_eq_iff ask_result ask_world stub_fields two_replies_def LOG_info_def empty_world_def)
  have g: "getitem ?r1 ''alignment'' = Inr (JString ''Saintly'')"
    "getitem ?r1 ''risk_score'' = Inr (JNumber (15 / 2))"
    "getitem ?r1 ''summary'' = Inr (JString ''none'')"
    "getitem ?r2 ''branches'' = Inr (JArray [])"
    "getitem ?r2 ''intervention'' = Inr (JString ''none'')"
    by simp_all
  have w0: "written empty_world = []"
    by (simp add: empty_world_def)
  from report_copies_first_response_verbatim [OF fi a1 g(1) g(2) g(3) a2 g(4) g(5)]
  show ?thesis
    by (simp add: stub_run_complete complete_world_def stub_fields w0)
qed

end
